theory Spec2Isabelle
  imports Main "HOL-Library.Word" "HOL-Library.Sublist"
begin

unbundle bit_operations_syntax

section \<open>DNS messages\<close>

text \<open>
  The server in \<^verbatim>\<open>awful.go\<close> builds its answers from the message types of the package
  \<^verbatim>\<open>github.com/miekg/dns\<close>. That package is an external collaborator of the program; the
  part of it the handlers touch is written down here: the question, the resource-record
  header, the four record types the handlers construct, and the message with its header
  bits and its four sections.
\<close>

type_synonym uint16 = "16 word"
type_synonym uint32 = "32 word"

text \<open>\<^verbatim>\<open>dns.Question\<close>: the owner name, the requested type and the requested class.\<close>

record Question =
  Name :: string
  Qtype :: uint16
  Qclass :: uint16

text \<open>
  \<^verbatim>\<open>dns.RR_Header\<close>. Its field \<^verbatim>\<open>Name\<close> is called \<open>Hdr_Name\<close> here, because the field
  names of two records of one theory must differ.
\<close>

record RR_Header =
  Hdr_Name :: string
  Rrtype :: uint16
  Class :: uint16
  Ttl :: uint32
  Rdlength :: uint16

text \<open>
  \<^verbatim>\<open>dns.RR\<close> is an interface; the handlers build values of four of its implementations:
  \<^verbatim>\<open>dns.CNAME{Hdr, Target}\<close>, \<^verbatim>\<open>dns.NS{Hdr, Ns}\<close>, \<^verbatim>\<open>dns.A{Hdr, A}\<close> (the address is a
  \<^verbatim>\<open>net.IP\<close>, a byte slice) and \<^verbatim>\<open>dns.TXT{Hdr, Txt}\<close>.
\<close>

datatype RR =
    CNAME (Hdr: RR_Header) string
  | NS (Hdr: RR_Header) string
  | A (Hdr: RR_Header) "8 word list"
  | TXT (Hdr: RR_Header) "string list"

text \<open>\<^verbatim>\<open>dns.Msg\<close>: the header (\<^verbatim>\<open>dns.MsgHdr\<close>), the compression flag and the four sections.\<close>

record Msg =
  Id :: uint16
  Response :: bool
  Opcode :: int
  Authoritative :: bool
  Truncated :: bool
  RecursionDesired :: bool
  RecursionAvailable :: bool
  Zero :: bool
  AuthenticatedData :: bool
  CheckingDisabled :: bool
  Rcode :: int
  Compress :: bool
  Question :: "Question list"
  Answer :: "RR list"
  Ns :: "RR list"
  Extra :: "RR list"

text \<open>The constants of the package that the program names (their values are those of RFC 1035).\<close>

definition RcodeSuccess :: int where "RcodeSuccess = 0"
definition OpcodeQuery :: int where "OpcodeQuery = 0"
definition TypeA :: uint16 where "TypeA = 1"
definition TypeNS :: uint16 where "TypeNS = 2"
definition TypeCNAME :: uint16 where "TypeCNAME = 5"
definition TypeTXT :: uint16 where "TypeTXT = 16"
definition ClassINET :: uint16 where "ClassINET = 1"

text \<open>\<^verbatim>\<open>new(dns.Msg)\<close>: every field has its zero value, every section is nil.\<close>

definition new_Msg :: Msg where
  "new_Msg = \<lparr>Id = 0, Response = False, Opcode = 0, Authoritative = False,
     Truncated = False, RecursionDesired = False, RecursionAvailable = False,
     Zero = False, AuthenticatedData = False, CheckingDisabled = False,
     Rcode = 0, Compress = False, Question = [], Answer = [], Ns = [], Extra = []\<rparr>"

text \<open>
  Modelled from the spec: \<^verbatim>\<open>(*dns.Msg).SetReply\<close> and \<^verbatim>\<open>(*dns.Msg).SetRcode\<close> belong to the
  external package, which is not part of this repository. The reply is addressed to the query's
  transaction (its id, its opcode, for a standard query its RD and CD bits, and its first
  question), is marked as a response, and carries the status the caller passes. No section
  other than the question is touched.
\<close>

definition SetReply :: "Msg \<Rightarrow> Msg \<Rightarrow> Msg" where
  "SetReply m request =
     (let m = m\<lparr>Id := Id request, Response := True, Opcode := Opcode request\<rparr>;
          m = (if Opcode m = OpcodeQuery
               then m\<lparr>RecursionDesired := RecursionDesired request,
                      CheckingDisabled := CheckingDisabled request\<rparr>
               else m);
          m = m\<lparr>Rcode := RcodeSuccess\<rparr>
      in if length (Question request) > 0
         then m\<lparr>Question := [Question request ! 0]\<rparr>
         else m)"

text \<open>
  Modelled from the spec: \<^verbatim>\<open>SetRcode\<close> of the external package is \<^verbatim>\<open>SetReply\<close> followed
  by the assignment of the status.
\<close>

definition SetRcode :: "Msg \<Rightarrow> Msg \<Rightarrow> int \<Rightarrow> Msg" where
  "SetRcode m request rcode = (SetReply m request)\<lparr>Rcode := rcode\<rparr>"

section \<open>Effects, panics and the command-line flags\<close>

text \<open>
  A handler returns nothing; what it does is to log, to sleep and to write messages to its
  \<^verbatim>\<open>dns.ResponseWriter\<close>. The model returns these effects in the order in which they happen.
  \<open>Log_Printf\<close> keeps the three arguments of the one format string of \<^verbatim>\<open>logQuery\<close>;
  \<open>Sleep\<close> carries the \<^verbatim>\<open>time.Duration\<close> passed to \<^verbatim>\<open>time.Sleep\<close>, in nanoseconds;
  \<open>WriteMsg\<close> carries the message passed to \<^verbatim>\<open>w.WriteMsg\<close>, whose error result the
  program drops.
\<close>

datatype effect =
    Log_Printf string string string
  | Sleep int
  | WriteMsg Msg

text \<open>A run-time panic of Go: reading index \<open>i\<close> of a slice of length \<open>n\<close>.\<close>

datatype panic = IndexOutOfRange nat nat

text \<open>
  A handler either returns after its effects, or panics after the effects it had time for.
\<close>

datatype outcome =
    Returns "effect list"
  | Panics panic "effect list"

fun effects :: "outcome \<Rightarrow> effect list" where
  "effects (Returns es) = es"
| "effects (Panics p es) = es"

fun written_of :: "effect list \<Rightarrow> Msg list" where
  "written_of [] = []"
| "written_of (WriteMsg m # es) = m # written_of es"
| "written_of (e # es) = written_of es"

definition written :: "outcome \<Rightarrow> Msg list" where
  "written out = written_of (effects out)"

fun slept_of :: "effect list \<Rightarrow> int list" where
  "slept_of [] = []"
| "slept_of (Sleep d # es) = d # slept_of es"
| "slept_of (e # es) = slept_of es"

text \<open>The records of the answer, authority and additional sections of a message.\<close>

definition records :: "Msg \<Rightarrow> RR list" where
  "records m = Answer m @ Ns m @ Extra m"

text \<open>Go's \<^verbatim>\<open>xs[i]\<close>: the element, or the panic when \<open>i\<close> is out of range.\<close>

definition index :: "'a list \<Rightarrow> nat \<Rightarrow> panic + 'a" where
  "index xs i = (if i < length xs then Inr (xs ! i) else Inl (IndexOutOfRange i (length xs)))"

text \<open>The part of a \<^verbatim>\<open>dns.ResponseWriter\<close> the program reads: the peer's address.\<close>

record ResponseWriter =
  RemoteAddr :: string

text \<open>The three flags of the program, as parsed by \<^verbatim>\<open>flag.Parse\<close>.\<close>

record flags =
  ip :: string
  listen :: string
  basename :: string

section \<open>The name of a query and the diagnostic answer\<close>

definition qname :: "Msg \<Rightarrow> string" where
  "qname q = (if length (Question q) > 0 then Name (Question q ! 0) else ''.'')"

definition logQuery :: "ResponseWriter \<Rightarrow> Msg \<Rightarrow> string \<Rightarrow> effect list" where
  "logQuery w q handler = [Log_Printf (RemoteAddr w) (qname q) handler]"

definition txtError :: "ResponseWriter \<Rightarrow> Msg \<Rightarrow> string \<Rightarrow> effect list" where
  "txtError w q errorMsg =
     (let m = SetRcode new_Msg q RcodeSuccess;
          m = m\<lparr>Answer :=
                [TXT \<lparr>Hdr_Name = qname q, Rrtype = TypeTXT, Class = ClassINET,
                       Ttl = 0, Rdlength = 0\<rparr> [errorMsg]]\<rparr>
      in [WriteMsg m])"

definition unknownHandler :: "ResponseWriter \<Rightarrow> Msg \<Rightarrow> outcome" where
  "unknownHandler w q =
     Returns (logQuery w q ''unknownHandler''
              @ txtError w q ''request did not match any known pattern.'')"

section \<open>The CNAME pit and the referral\<close>

definition cnamePitHandler :: "ResponseWriter \<Rightarrow> Msg \<Rightarrow> outcome" where
  "cnamePitHandler w q =
     (let log = logQuery w q ''cnamePitHandler'';
          m = SetRcode new_Msg q RcodeSuccess;
          record = CNAME \<lparr>Hdr_Name = qname q, Rrtype = TypeCNAME, Class = ClassINET,
                          Ttl = 0, Rdlength = 0\<rparr> (''q.'' @ qname q);
          m = m\<lparr>Answer := [record]\<rparr>
      in Returns (log @ [WriteMsg m]))"

text \<open>
  \<^verbatim>\<open>manyCutsHandler\<close> reads the global flag \<^verbatim>\<open>ip\<close>, passed here in the record of the flags,
  and turns it into an address with \<^verbatim>\<open>net.ParseIP\<close> of the standard library, which is not
  part of the program and is the parameter \<open>ParseIP\<close>. The handler reads
  \<^verbatim>\<open>q.Question[0]\<close> without a check of the length.
\<close>

definition manyCutsHandler ::
  "(string \<Rightarrow> 8 word list) \<Rightarrow> flags \<Rightarrow> ResponseWriter \<Rightarrow> Msg \<Rightarrow> outcome" where
  "manyCutsHandler ParseIP fl w q =
     (let log = logQuery w q ''manyCutsHandler'';
          m = SetRcode new_Msg q RcodeSuccess
      in case index (Question q) 0 of
           Inl p \<Rightarrow> Panics p log
         | Inr q0 \<Rightarrow>
             (let name = Name q0;
                  nextName = ''q.'' @ name;
                  record = NS \<lparr>Hdr_Name = name, Rrtype = TypeNS, Class = ClassINET,
                               Ttl = 0, Rdlength = 0\<rparr> nextName;
                  m = m\<lparr>Ns := [record]\<rparr>;
                  m = m\<lparr>Extra :=
                        [A \<lparr>Hdr_Name = nextName, Rrtype = TypeA, Class = ClassINET,
                             Ttl = 0, Rdlength = 0\<rparr> (ParseIP (ip fl))]\<rparr>
              in Returns (log @ [WriteMsg m])))"

section \<open>The sleep handler and the standard library it calls\<close>

text \<open>
  \<^verbatim>\<open>strings.Split(s, sep)\<close> for a separator of one byte, which is how the program calls
  it (\<^verbatim>\<open>"."\<close>): the pieces of \<open>s\<close> between the occurrences of the separator, in order.
  \<open>split_from cur s sep\<close> scans \<open>s\<close> with \<open>cur\<close> the piece read so far. The result is
  never empty: the empty string splits into one empty piece.
\<close>

fun split_from :: "string \<Rightarrow> string \<Rightarrow> char \<Rightarrow> string list" where
  "split_from cur [] sep = [cur]"
| "split_from cur (c # cs) sep =
     (if c = sep then cur # split_from [] cs sep else split_from (cur @ [c]) cs sep)"

definition Split :: "string \<Rightarrow> char \<Rightarrow> string list" where
  "Split s sep = split_from [] s sep"

text \<open>
  \<^verbatim>\<open>strconv.ParseUint\<close> and \<^verbatim>\<open>strconv.ParseInt\<close> of the standard library, for an explicit
  base between 2 and 36 and a bit size between 1 and 64 (the program passes 10 and 16).
  The base prefixes and the underscores that only base 0 allows are left out. As in Go,
  both return a value together with an error, the error being \<open>None\<close> for \<^verbatim>\<open>nil\<close>;
  \<^verbatim>\<open>uint64\<close> arithmetic is written on \<open>nat\<close> with its wrap-around.
\<close>

datatype NumError = ErrSyntax | ErrRange

definition maxUint64 :: nat where
  "maxUint64 = 2 ^ 64 - 1"

text \<open>\<^verbatim>\<open>lower(c) = c | ('x' - 'X')\<close>.\<close>

definition lower :: "char \<Rightarrow> nat" where
  "lower c = (of_char c :: nat) OR 32"

text \<open>The digit a byte stands for, if any: the \<^verbatim>\<open>switch\<close> in the loop of \<^verbatim>\<open>ParseUint\<close>.\<close>

definition digit_value :: "char \<Rightarrow> nat option" where
  "digit_value c =
     (if of_char (CHR ''0'') \<le> (of_char c :: nat) \<and> (of_char c :: nat) \<le> of_char (CHR ''9'')
      then Some (of_char c - of_char (CHR ''0''))
      else if of_char (CHR ''a'') \<le> lower c \<and> lower c \<le> of_char (CHR ''z'')
      then Some (lower c - of_char (CHR ''a'') + 10)
      else None)"

fun ParseUint_loop :: "nat \<Rightarrow> nat \<Rightarrow> nat \<Rightarrow> nat \<Rightarrow> string \<Rightarrow> nat \<times> NumError option" where
  "ParseUint_loop base cutoff maxVal n [] = (n, None)"
| "ParseUint_loop base cutoff maxVal n (c # cs) =
     (case digit_value c of
        None \<Rightarrow> (0, Some ErrSyntax)
      | Some d \<Rightarrow>
          if d \<ge> base then (0, Some ErrSyntax)
          else if n \<ge> cutoff then (maxVal, Some ErrRange)
          else if (n * base mod 2 ^ 64 + d) mod 2 ^ 64 < n * base mod 2 ^ 64
                  \<or> (n * base mod 2 ^ 64 + d) mod 2 ^ 64 > maxVal
          then (maxVal, Some ErrRange)
          else ParseUint_loop base cutoff maxVal ((n * base mod 2 ^ 64 + d) mod 2 ^ 64) cs)"

definition ParseUint :: "string \<Rightarrow> nat \<Rightarrow> nat \<Rightarrow> nat \<times> NumError option" where
  "ParseUint s base bitSize =
     (if s = [] then (0, Some ErrSyntax)
      else let cutoff = maxUint64 div base + 1;
               maxVal = (2 ^ bitSize mod 2 ^ 64 + maxUint64) mod 2 ^ 64
           in ParseUint_loop base cutoff maxVal 0 s)"

text \<open>The conversion \<^verbatim>\<open>int64(x)\<close> and the \<^verbatim>\<open>int64\<close> arithmetic: two's complement on 64 bits.\<close>

definition int64 :: "int \<Rightarrow> int" where
  "int64 x = (x + 2 ^ 63) mod 2 ^ 64 - 2 ^ 63"

definition ParseInt :: "string \<Rightarrow> nat \<Rightarrow> nat \<Rightarrow> int \<times> NumError option" where
  "ParseInt s base bitSize =
     (case s of
        [] \<Rightarrow> (0, Some ErrSyntax)
      | c # rest \<Rightarrow>
          (let neg = (c = CHR ''-'');
               s1 = (if c = CHR ''+'' then rest else if c = CHR ''-'' then rest else s);
               (un, err) = ParseUint s1 base bitSize
           in if err \<noteq> None \<and> err \<noteq> Some ErrRange then (0, err)
              else let cutoff = (2 ^ (bitSize - 1) :: nat) mod 2 ^ 64
                   in if \<not> neg \<and> un \<ge> cutoff then (int64 (int (cutoff - 1)), Some ErrRange)
                      else if neg \<and> un > cutoff then (int64 (- int64 (int cutoff)), Some ErrRange)
                      else let n = int64 (int un)
                           in (if neg then int64 (- n) else n, None)))"

text \<open>\<^verbatim>\<open>time.Millisecond\<close>, a \<^verbatim>\<open>time.Duration\<close>: nanoseconds in an \<^verbatim>\<open>int64\<close>.\<close>

definition Millisecond :: int where
  "Millisecond = 1000000"

definition sleepHandler :: "ResponseWriter \<Rightarrow> Msg \<Rightarrow> outcome" where
  "sleepHandler w q =
     (let log = logQuery w q ''sleepHandler'';
          m = SetRcode new_Msg q RcodeSuccess;
          labels = Split (qname q) (CHR ''.'')
      in case index labels 0 of
           Inl p \<Rightarrow> Panics p log
         | Inr label0 \<Rightarrow>
             (let (sleepCount, err) = ParseInt label0 10 16
              in if err \<noteq> None
                 then Returns (log @ txtError w q ''failed to parse integer sleep time'')
                 else Returns (log @ [Sleep (int64 (int64 sleepCount * Millisecond)),
                                      WriteMsg m])))"

text \<open>
  What a decimal literal of a signed 16-bit integer is, independently of the loop of
  \<^verbatim>\<open>ParseUint\<close>: an optional sign, then at least one decimal digit and nothing else, the
  number written being between \<open>-32768\<close> and \<open>32767\<close>. Leading zeros are allowed.
\<close>

definition is_digit :: "char \<Rightarrow> bool" where
  "is_digit c \<longleftrightarrow> 48 \<le> (of_char c :: nat) \<and> (of_char c :: nat) \<le> 57"

definition decimal :: "string \<Rightarrow> nat" where
  "decimal ds = foldl (\<lambda>n c. 10 * n + (of_char c - 48)) 0 ds"

definition int16_literal :: "string \<Rightarrow> int option" where
  "int16_literal s =
     (let neg = (s \<noteq> [] \<and> hd s = CHR ''-'');
          ds = (if s \<noteq> [] \<and> (hd s = CHR ''+'' \<or> hd s = CHR ''-'') then tl s else s);
          v = (if neg then - int (decimal ds) else int (decimal ds))
      in if ds \<noteq> [] \<and> list_all is_digit ds \<and> - 32768 \<le> v \<and> v \<le> 32767
         then Some v else None)"

section \<open>The router\<close>

text \<open>
  The three patterns \<^verbatim>\<open>main\<close> registers under the base name, in the order of the source.
  The fourth registration, of \<^verbatim>\<open>unknownHandler\<close> for \<^verbatim>\<open>"."\<close>, is the catch-all.
\<close>

datatype handler = H_cnamePitHandler | H_manyCutsHandler | H_sleepHandler | H_unknownHandler

definition registrations :: "flags \<Rightarrow> (string \<times> handler) list" where
  "registrations fl =
     [(''cnamepit.'' @ basename fl, H_cnamePitHandler),
      (''manycuts.'' @ basename fl, H_manyCutsHandler),
      (''sleep.'' @ basename fl, H_sleepHandler)]"

text \<open>
  Modelled from the spec: the router is \<^verbatim>\<open>dns.ServeMux\<close> of the external package, whose
  matching code is not part of this repository. Section 4.1 of the specification: the name of the
  query is matched by suffix against each registered pattern; when no registered pattern
  matches, the default handler is selected. Section 3: where a query has no question, the
  root name stands for its name, which is what \<open>qname\<close> computes.
\<close>

definition route :: "flags \<Rightarrow> string \<Rightarrow> handler" where
  "route fl name =
     (case find (\<lambda>(pattern, h). suffix pattern name) (registrations fl) of
        Some (pattern, h) \<Rightarrow> h
      | None \<Rightarrow> H_unknownHandler)"

text \<open>
  Modelled from the spec: serving a query is running the one handler that the router
  selects for the name of the query (section 2, control flow; section 4.1, only one handler
  ever runs per query).
\<close>

definition ServeDNS ::
  "(string \<Rightarrow> 8 word list) \<Rightarrow> flags \<Rightarrow> ResponseWriter \<Rightarrow> Msg \<Rightarrow> outcome" where
  "ServeDNS ParseIP fl w q =
     (case route fl (qname q) of
        H_cnamePitHandler \<Rightarrow> cnamePitHandler w q
      | H_manyCutsHandler \<Rightarrow> manyCutsHandler ParseIP fl w q
      | H_sleepHandler \<Rightarrow> sleepHandler w q
      | H_unknownHandler \<Rightarrow> unknownHandler w q)"

section \<open>Example inputs\<close>

text \<open>
  The flags at their default values, a peer, and a query with one question. They are the
  inputs at which the theorems below are instantiated. \<open>example_ParseIP\<close> stands for
  \<^verbatim>\<open>net.ParseIP\<close> at the one address the examples use (Go keeps an IPv4 address in
  16 bytes).
\<close>

definition example_flags :: flags where
  "example_flags = \<lparr>ip = ''127.0.0.1'', listen = '':1053'', basename = ''example.com''\<rparr>"

definition example_writer :: ResponseWriter where
  "example_writer = \<lparr>RemoteAddr = ''192.0.2.7:40000''\<rparr>"

definition example_ParseIP :: "string \<Rightarrow> 8 word list" where
  "example_ParseIP s =
     (if s = ''127.0.0.1'' then [0, 0, 0, 0, 0, 0, 0, 0, 0, 0, 255, 255, 127, 0, 0, 1] else [])"

definition query_for :: "string \<Rightarrow> uint16 \<Rightarrow> Msg" where
  "query_for name class =
     new_Msg\<lparr>Id := 4660, RecursionDesired := True,
             Question := [\<lparr>Name = name, Qtype = TypeA, Qclass = class\<rparr>]\<rparr>"

section \<open>Facts about the library functions\<close>

lemma SetRcode_sections:
  "Rcode (SetRcode new_Msg q rc) = rc"
  "Answer (SetRcode new_Msg q rc) = []"
  "Ns (SetRcode new_Msg q rc) = []"
  "Extra (SetRcode new_Msg q rc) = []"
  by (simp_all add: SetRcode_def SetReply_def new_Msg_def Let_def)

lemma split_from_not_Nil: "split_from cur s sep \<noteq> []"
  by (induction s arbitrary: cur) simp_all

lemma Split_not_Nil: "Split s sep \<noteq> []"
  by (simp add: Split_def split_from_not_Nil)

lemma index_Split_0: "index (Split s sep) 0 = Inr (hd (Split s sep))"
  using Split_not_Nil [of s sep] by (cases "Split s sep") (simp_all add: index_def)

text \<open>The first piece of a split is the text before the first separator.\<close>

lemma hd_split_from: "hd (split_from cur s sep) = cur @ takeWhile (\<lambda>c. c \<noteq> sep) s"
  by (induction s arbitrary: cur) simp_all

lemma hd_Split: "hd (Split s sep) = takeWhile (\<lambda>c. c \<noteq> sep) s"
  by (simp add: Split_def hd_split_from)

lemma int64_id: "- (2 ^ 63) \<le> x \<Longrightarrow> x < 2 ^ 63 \<Longrightarrow> int64 x = x"
  by (simp add: int64_def)

subsection \<open>\<open>ParseInt\<close> in base 10 on 16 bits reads the decimal literals\<close>

lemma digit_value_digit: "is_digit c \<Longrightarrow> digit_value c = Some (of_char c - 48)"
  by (simp add: digit_value_def is_digit_def)

lemma digit_value_other:
  "\<not> is_digit c \<Longrightarrow> digit_value c = None \<or> (\<exists>d. digit_value c = Some d \<and> 10 \<le> d)"
  by (auto simp add: digit_value_def is_digit_def)

lemma digit_lt_10: "is_digit c \<Longrightarrow> (of_char c :: nat) - 48 < 10"
  by (auto simp add: is_digit_def)

lemma foldl_decimal_mono: "(n::nat) \<le> foldl (\<lambda>n c. 10 * n + (of_char c - 48)) n cs"
proof (induction cs arbitrary: n)
  case Nil
  show ?case by simp
next
  case (Cons c cs)
  have "n \<le> 10 * n + (of_char c - 48)" by simp
  also have "\<dots> \<le> foldl (\<lambda>n c. 10 * n + (of_char c - 48)) (10 * n + (of_char c - 48)) cs"
    by (rule Cons.IH)
  finally show ?case by simp
qed

text \<open>
  On digits the loop computes the number written, as long as it fits 16 bits; the
  wrap-around of \<^verbatim>\<open>uint64\<close> is never reached, because the accumulator stays below
  \<open>2 ^ 16\<close>.
\<close>

lemma loop_digits:
  "list_all is_digit cs \<Longrightarrow> n \<le> 65535 \<Longrightarrow>
   ParseUint_loop 10 (maxUint64 div 10 + 1) 65535 n cs =
     (if foldl (\<lambda>n c. 10 * n + (of_char c - 48)) n cs \<le> 65535
      then (foldl (\<lambda>n c. 10 * n + (of_char c - 48)) n cs, None)
      else (65535, Some ErrRange))"
proof (induction cs arbitrary: n)
  case Nil
  then show ?case by simp
next
  case (Cons c cs)
  let ?d = "(of_char c :: nat) - 48"
  let ?n1 = "10 * n + ?d"
  from Cons.prems have dig: "is_digit c" and rest: "list_all is_digit cs" by simp_all
  have d: "?d < 10" using dig by (rule digit_lt_10)
  have small: "n * 10 mod 2 ^ 64 = n * 10" "(n * 10 + ?d) mod 2 ^ 64 = n * 10 + ?d"
    using Cons.prems(2) d by simp_all
  have cut: "\<not> maxUint64 div 10 + 1 \<le> n"
    using Cons.prems(2) by (simp add: maxUint64_def)
  show ?case
  proof (cases "?n1 \<le> 65535")
    case True
    then show ?thesis
      using Cons.IH [OF rest True] d cut small
      by (simp add: digit_value_digit [OF dig] mult.commute)
  next
    case False
    have "?n1 \<le> foldl (\<lambda>n c. 10 * n + (of_char c - 48)) ?n1 cs"
      by (rule foldl_decimal_mono)
    with False have "\<not> foldl (\<lambda>n c. 10 * n + (of_char c - 48)) ?n1 cs \<le> 65535" by linarith
    then show ?thesis
      using False d cut small
      by (simp add: digit_value_digit [OF dig] mult.commute)
  qed
qed

lemma loop_not_digits:
  "\<not> list_all is_digit cs \<Longrightarrow>
   ParseUint_loop 10 cutoff maxVal n cs \<in> {(0, Some ErrSyntax), (maxVal, Some ErrRange)}"
proof (induction cs arbitrary: n)
  case Nil
  then show ?case by simp
next
  case (Cons c cs)
  show ?case
  proof (cases "is_digit c")
    case True
    with Cons.prems have "\<not> list_all is_digit cs" by simp
    then show ?thesis
      using Cons.IH by (simp add: digit_value_digit [OF True])
  next
    case False
    from digit_value_other [OF False] show ?thesis by auto
  qed
qed

lemma maxVal_16: "(2 ^ 16 mod 2 ^ 64 + maxUint64) mod 2 ^ 64 = (65535::nat)"
  by (simp add: maxUint64_def)

lemma ParseUint_unfold:
  "ds \<noteq> [] \<Longrightarrow> ParseUint ds 10 16 = ParseUint_loop 10 (maxUint64 div 10 + 1) 65535 0 ds"
  unfolding ParseUint_def Let_def maxVal_16 by simp

lemma ParseUint_10_16:
  assumes "ds \<noteq> []" and "list_all is_digit ds"
  shows "ParseUint ds 10 16 =
     (if decimal ds \<le> 65535 then (decimal ds, None) else (65535, Some ErrRange))"
proof -
  have "ParseUint ds 10 16 = ParseUint_loop 10 (maxUint64 div 10 + 1) 65535 0 ds"
    using assms(1) by (rule ParseUint_unfold)
  also have "\<dots> = (if foldl (\<lambda>n c. 10 * n + (of_char c - 48)) (0::nat) ds \<le> 65535
      then (foldl (\<lambda>n c. 10 * n + (of_char c - 48)) 0 ds, None)
      else (65535, Some ErrRange))"
    using assms(2) by (rule loop_digits) simp
  finally show ?thesis by (simp only: decimal_def)
qed

lemma ParseUint_10_16_syntax:
  assumes "\<not> (ds \<noteq> [] \<and> list_all is_digit ds)"
  shows "ParseUint ds 10 16 = (0, Some ErrSyntax) \<or> ParseUint ds 10 16 = (65535, Some ErrRange)"
proof (cases "ds = []")
  case True
  then show ?thesis by (simp add: ParseUint_def)
next
  case False
  with assms have "\<not> list_all is_digit ds" by simp
  from loop_not_digits [OF this, of "maxUint64 div 10 + 1" 65535 0]
  show ?thesis by (simp only: ParseUint_unfold [OF False] insert_iff empty_iff simp_thms)
qed

lemma ParseInt_unfold:
  assumes "ParseUint (if c = CHR ''+'' \<or> c = CHR ''-'' then rest else c # rest) 10 16 = (un, err)"
  shows "ParseInt (c # rest) 10 16 =
     (if err = Some ErrSyntax then (0, Some ErrSyntax)
      else if c \<noteq> CHR ''-'' \<and> un \<ge> 32768 then (32767, Some ErrRange)
      else if c = CHR ''-'' \<and> un > 32768 then (- 32768, Some ErrRange)
      else (if c = CHR ''-'' then - int un else int un, None))"
proof -
  have e: "err = None \<or> err = Some ErrSyntax \<or> err = Some ErrRange"
    by (cases err) (auto intro: NumError.exhaust)
  consider "c = CHR ''+''" | "c = CHR ''-''" | "c \<noteq> CHR ''+''" "c \<noteq> CHR ''-''" by blast
  then show ?thesis
  proof cases
    case 1
    then show ?thesis using assms e
      by (auto simp add: ParseInt_def Let_def int64_def)
  next
    case 2
    then show ?thesis using assms e
      by (auto simp add: ParseInt_def Let_def int64_def)
  next
    case 3
    then show ?thesis using assms e
      by (auto simp add: ParseInt_def Let_def int64_def)
  qed
qed

text \<open>
  \<^verbatim>\<open>strconv.ParseInt(s, 10, 16)\<close> returns \<open>v\<close> without an error exactly when \<open>s\<close> is the
  decimal literal of \<open>v\<close> and \<open>v\<close> is a signed 16-bit integer.
\<close>

lemma ParseInt_int16_literal:
  "ParseInt s 10 16 = (v, None) \<longleftrightarrow> int16_literal s = Some v"
proof (cases s)
  case Nil
  then show ?thesis by (simp add: ParseInt_def int16_literal_def)
next
  case (Cons c rest)
  define ds where "ds = (if c = CHR ''+'' \<or> c = CHR ''-'' then rest else c # rest)"
  obtain un err where r: "ParseUint ds 10 16 = (un, err)"
    by (cases "ParseUint ds 10 16")
  note P = ParseInt_unfold [OF r [unfolded ds_def]]
  have L: "int16_literal (c # rest) =
      (if ds \<noteq> [] \<and> list_all is_digit ds
          \<and> - 32768 \<le> (if c = CHR ''-'' then - int (decimal ds) else int (decimal ds))
          \<and> (if c = CHR ''-'' then - int (decimal ds) else int (decimal ds)) \<le> 32767
       then Some (if c = CHR ''-'' then - int (decimal ds) else int (decimal ds)) else None)"
    by (simp add: int16_literal_def ds_def Let_def)
  show ?thesis
  proof (cases "ds \<noteq> [] \<and> list_all is_digit ds")
    case True
    then have "ParseUint ds 10 16 =
      (if decimal ds \<le> 65535 then (decimal ds, None) else (65535, Some ErrRange))"
      by (simp add: ParseUint_10_16)
    with r have "(un, err) =
      (if decimal ds \<le> 65535 then (decimal ds, None) else (65535, Some ErrRange))" by simp
    then show ?thesis
      using True unfolding Cons P L
      by (auto split: if_splits)
  next
    case False
    from ParseUint_10_16_syntax [OF False] r
    have "(un, err) = (0, Some ErrSyntax) \<or> (un, err) = (65535, Some ErrRange)" by simp
    then show ?thesis
      using False unfolding Cons P L
      by (auto split: if_splits)
  qed
qed

lemma ParseInt_error_iff: "snd (ParseInt s 10 16) \<noteq> None \<longleftrightarrow> int16_literal s = None"
proof -
  have "snd (ParseInt s 10 16) = None \<longleftrightarrow> (\<exists>v. ParseInt s 10 16 = (v, None))"
    by (cases "ParseInt s 10 16") auto
  then show ?thesis by (auto simp add: ParseInt_int16_literal)
qed

lemma ParseInt_16_range:
  "ParseInt s 10 16 = (k, None) \<Longrightarrow> - 32768 \<le> k \<and> k \<le> 32767"
  by (auto simp add: ParseInt_int16_literal int16_literal_def Let_def split: if_splits)

text \<open>The two branches of \<^verbatim>\<open>sleepHandler\<close>, the index 0 of the labels being always there.\<close>

lemma sleepHandler_cases:
  "sleepHandler w q =
     (if snd (ParseInt (hd (Split (qname q) (CHR ''.''))) 10 16) \<noteq> None
      then Returns (logQuery w q ''sleepHandler''
                    @ txtError w q ''failed to parse integer sleep time'')
      else Returns (logQuery w q ''sleepHandler''
                    @ [Sleep (int64 (int64 (fst (ParseInt (hd (Split (qname q) (CHR ''.''))) 10 16))
                                     * Millisecond)),
                       WriteMsg (SetRcode new_Msg q RcodeSuccess)]))"
  by (simp add: sleepHandler_def Let_def index_Split_0 split: prod.splits)

subsection \<open>Evaluating the examples\<close>

lemma qname_query_for: "qname (query_for name class) = name"
  by (simp add: qname_def query_for_def)

lemma ParseInt_5: "ParseInt ''5'' 10 16 = (5, None)"
  by (simp add: ParseInt_def ParseUint_def Let_def digit_value_def maxUint64_def int64_def)

lemma ParseInt_abc: "ParseInt ''abc'' 10 16 = (0, Some ErrSyntax)"
  by (simp add: ParseInt_def ParseUint_def Let_def digit_value_def lower_def maxUint64_def)

lemma Question_query_for:
  "Question (query_for name class) = [\<lparr>Name = name, Qtype = TypeA, Qclass = class\<rparr>]"
  by (simp add: query_for_def)

lemma route_root: "route fl ''.'' = H_unknownHandler"
  by (simp add: route_def registrations_def suffix_def)

text \<open>The router sends the names of the examples where the specification says.\<close>

lemma route_examples:
  "route example_flags ''cnamepit.example.com'' = H_cnamePitHandler"
  "route example_flags ''manycuts.example.com'' = H_manyCutsHandler"
  "route example_flags ''5.sleep.example.com'' = H_sleepHandler"
  "route example_flags ''foo.bar'' = H_unknownHandler"
  by (simp_all add: route_def registrations_def example_flags_def suffix_to_prefix)

text \<open>What each handler writes.\<close>

lemma written_cnamePit:
  "written (cnamePitHandler w q) =
     [(SetRcode new_Msg q RcodeSuccess)
        \<lparr>Answer := [CNAME \<lparr>Hdr_Name = qname q, Rrtype = TypeCNAME, Class = ClassINET,
                            Ttl = 0, Rdlength = 0\<rparr> (''q.'' @ qname q)]\<rparr>]"
  by (simp add: written_def cnamePitHandler_def logQuery_def Let_def)

lemma written_txtError:
  "written_of (txtError w q msg) =
     [(SetRcode new_Msg q RcodeSuccess)
        \<lparr>Answer := [TXT \<lparr>Hdr_Name = qname q, Rrtype = TypeTXT, Class = ClassINET,
                          Ttl = 0, Rdlength = 0\<rparr> [msg]]\<rparr>]"
  by (simp add: txtError_def Let_def)

lemma written_unknown:
  "written (unknownHandler w q) =
     written_of (txtError w q ''request did not match any known pattern.'')"
  by (simp add: written_def unknownHandler_def logQuery_def)

lemma written_manyCuts:
  "written (manyCutsHandler ParseIP fl w q) =
     (if Question q = [] then []
      else [(SetRcode new_Msg q RcodeSuccess)
              \<lparr>Ns := [NS \<lparr>Hdr_Name = Name (Question q ! 0), Rrtype = TypeNS,
                           Class = ClassINET, Ttl = 0, Rdlength = 0\<rparr>
                         (''q.'' @ Name (Question q ! 0))],
               Extra := [A \<lparr>Hdr_Name = ''q.'' @ Name (Question q ! 0), Rrtype = TypeA,
                             Class = ClassINET, Ttl = 0, Rdlength = 0\<rparr> (ParseIP (ip fl))]\<rparr>])"
  by (simp add: written_def manyCutsHandler_def index_def logQuery_def Let_def)

lemma written_sleep:
  "written (sleepHandler w q) =
     (if snd (ParseInt (hd (Split (qname q) (CHR ''.''))) 10 16) \<noteq> None
      then written_of (txtError w q ''failed to parse integer sleep time'')
      else [SetRcode new_Msg q RcodeSuccess])"
  by (simp add: written_def sleepHandler_cases logQuery_def)

section \<open>The name of a query\<close>

text \<open>
  C8. For every query, \<open>qname\<close> is the name of the first question when the question
  section is not empty, and the root name \<open>''.''\<close> when it is empty. It is a total
  function with no failing branch: the index 0 is read only under the guard on the length.
\<close>

theorem qname_first_or_root:
  "(\<forall>x xs. Question q = x # xs \<longrightarrow> qname q = Name x)
   \<and> (Question q = [] \<longrightarrow> qname q = ''.'')"
  by (simp add: qname_def)

theorem qname_first_or_root_witness:
  "Question (query_for ''foo.bar'' ClassINET)
     = [\<lparr>Name = ''foo.bar'', Qtype = TypeA, Qclass = ClassINET\<rparr>]
   \<and> qname (query_for ''foo.bar'' ClassINET) = ''foo.bar''
   \<and> Question new_Msg = [] \<and> qname new_Msg = ''.''"
  using qname_first_or_root [of "query_for ''foo.bar'' ClassINET"]
    qname_first_or_root [of new_Msg]
  by (simp add: query_for_def new_Msg_def)

section \<open>The CNAME pit\<close>

text \<open>
  C1. For every query handed to \<open>cnamePitHandler\<close>, with query name \<open>N = qname q\<close>, the
  handler returns after the log line and one written message. That message has the success
  status; its answer section is exactly one CNAME record, owned by \<open>N\<close>, whose target is
  \<open>''q.''\<close> prepended to \<open>N\<close>; its authority and additional sections are empty.
\<close>

theorem cnamePit_response:
  "\<exists>m. cnamePitHandler w q
          = Returns [Log_Printf (RemoteAddr w) (qname q) ''cnamePitHandler'', WriteMsg m]
       \<and> Rcode m = RcodeSuccess
       \<and> Answer m = [CNAME \<lparr>Hdr_Name = qname q, Rrtype = TypeCNAME, Class = ClassINET,
                            Ttl = 0, Rdlength = 0\<rparr> (''q.'' @ qname q)]
       \<and> Ns m = [] \<and> Extra m = []"
  by (simp add: cnamePitHandler_def logQuery_def Let_def SetRcode_sections)

theorem cnamePit_response_witness:
  "\<exists>m. cnamePitHandler example_writer (query_for ''cnamepit.example.com'' ClassINET)
          = Returns [Log_Printf ''192.0.2.7:40000'' ''cnamepit.example.com'' ''cnamePitHandler'',
                     WriteMsg m]
       \<and> Rcode m = 0
       \<and> Answer m = [CNAME \<lparr>Hdr_Name = ''cnamepit.example.com'', Rrtype = 5, Class = 1,
                            Ttl = 0, Rdlength = 0\<rparr> ''q.cnamepit.example.com'']
       \<and> Ns m = [] \<and> Extra m = []"
  using cnamePit_response [of example_writer "query_for ''cnamepit.example.com'' ClassINET"]
  by (simp add: qname_query_for example_writer_def RcodeSuccess_def TypeCNAME_def ClassINET_def)

section \<open>The referral\<close>

text \<open>
  C2. For every query handed to \<open>manyCutsHandler\<close> that has a query name \<open>N\<close>, that is,
  whose question section starts with a question of name \<open>N\<close>, the handler returns after
  the log line and one written message. That message has the success status and an empty
  answer section; its authority section is exactly one NS record, owned by \<open>N\<close>, whose
  name server is \<open>''q.''\<close> prepended to \<open>N\<close>; its additional section is exactly one A
  record, owned by that name-server name, whose address is \<^verbatim>\<open>net.ParseIP\<close> of the
  configured flag \<^verbatim>\<open>ip\<close>.
\<close>

theorem manyCuts_referral:
  "Question q = q0 # rest \<Longrightarrow>
   \<exists>m. manyCutsHandler ParseIP fl w q
          = Returns [Log_Printf (RemoteAddr w) (Name q0) ''manyCutsHandler'', WriteMsg m]
       \<and> Rcode m = RcodeSuccess
       \<and> Answer m = []
       \<and> Ns m = [NS \<lparr>Hdr_Name = Name q0, Rrtype = TypeNS, Class = ClassINET,
                       Ttl = 0, Rdlength = 0\<rparr> (''q.'' @ Name q0)]
       \<and> Extra m = [A \<lparr>Hdr_Name = ''q.'' @ Name q0, Rrtype = TypeA, Class = ClassINET,
                         Ttl = 0, Rdlength = 0\<rparr> (ParseIP (ip fl))]"
  by (simp add: manyCutsHandler_def index_def qname_def logQuery_def Let_def SetRcode_sections)

theorem manyCuts_referral_witness:
  "Question (query_for ''manycuts.example.com'' ClassINET)
     = \<lparr>Name = ''manycuts.example.com'', Qtype = TypeA, Qclass = ClassINET\<rparr> # []
   \<and> (\<exists>m. manyCutsHandler example_ParseIP example_flags example_writer
             (query_for ''manycuts.example.com'' ClassINET)
            = Returns [Log_Printf ''192.0.2.7:40000'' ''manycuts.example.com''
                         ''manyCutsHandler'', WriteMsg m]
          \<and> Rcode m = 0
          \<and> Answer m = []
          \<and> Ns m = [NS \<lparr>Hdr_Name = ''manycuts.example.com'', Rrtype = 2, Class = 1,
                          Ttl = 0, Rdlength = 0\<rparr> ''q.manycuts.example.com'']
          \<and> Extra m = [A \<lparr>Hdr_Name = ''q.manycuts.example.com'', Rrtype = 1, Class = 1,
                            Ttl = 0, Rdlength = 0\<rparr>
                          [0, 0, 0, 0, 0, 0, 0, 0, 0, 0, 255, 255, 127, 0, 0, 1]])"
proof -
  have h: "Question (query_for ''manycuts.example.com'' ClassINET)
     = \<lparr>Name = ''manycuts.example.com'', Qtype = TypeA, Qclass = ClassINET\<rparr> # []"
    by (simp add: query_for_def)
  from manyCuts_referral [OF h, of example_ParseIP example_flags example_writer] h
  show ?thesis
    by (simp add: example_writer_def example_flags_def example_ParseIP_def
        RcodeSuccess_def TypeNS_def TypeA_def ClassINET_def)
qed

text \<open>
  C6. The claim is that \<open>manyCutsHandler\<close> is total on a query with no question section
  and answers it with the referral owned by the root name. The code reads
  \<^verbatim>\<open>q.Question[0]\<close> without the guard that \<open>qname\<close> has: on every query whose question
  section is empty the handler panics after its log line, and writes nothing.
\<close>

theorem manyCuts_no_question_panics:
  "manyCutsHandler ParseIP fl w (q\<lparr>Question := []\<rparr>)
     = Panics (IndexOutOfRange 0 0) [Log_Printf (RemoteAddr w) ''.'' ''manyCutsHandler'']
   \<and> written (manyCutsHandler ParseIP fl w (q\<lparr>Question := []\<rparr>)) = []"
  by (simp add: written_def manyCutsHandler_def index_def qname_def logQuery_def Let_def)

section \<open>The sleep handler\<close>

text \<open>
  C3. For every query handed to \<open>sleepHandler\<close> whose first label (the first piece of the
  query name split at the dots) is refused by \<^verbatim>\<open>strconv.ParseInt(_, 10, 16)\<close>, the handler
  returns after the log line and exactly one written message, and asks for no sleep. The
  message has the success status and its answer section is exactly one TXT record, owned by
  the query name, with the one text \<open>''failed to parse integer sleep time''\<close>. By
  \<open>ParseInt_error_iff\<close> the refused labels are those that are not the decimal literal of
  a signed 16-bit integer.
\<close>

theorem sleep_parse_failure:
  "snd (ParseInt (hd (Split (qname q) (CHR ''.''))) 10 16) \<noteq> None \<Longrightarrow>
   \<exists>m. sleepHandler w q
          = Returns [Log_Printf (RemoteAddr w) (qname q) ''sleepHandler'', WriteMsg m]
       \<and> Rcode m = RcodeSuccess
       \<and> Answer m = [TXT \<lparr>Hdr_Name = qname q, Rrtype = TypeTXT, Class = ClassINET,
                          Ttl = 0, Rdlength = 0\<rparr> [''failed to parse integer sleep time'']]
       \<and> written (sleepHandler w q) = [m]
       \<and> slept_of (effects (sleepHandler w q)) = []"
  by (simp add: written_def sleepHandler_cases txtError_def logQuery_def Let_def
      SetRcode_sections)

theorem sleep_parse_failure_witness:
  "snd (ParseInt (hd (Split (qname (query_for ''abc.sleep.example.com'' ClassINET)) (CHR ''.'')))
          10 16) = Some ErrSyntax
   \<and> (\<exists>m. sleepHandler example_writer (query_for ''abc.sleep.example.com'' ClassINET)
            = Returns [Log_Printf ''192.0.2.7:40000'' ''abc.sleep.example.com'' ''sleepHandler'',
                       WriteMsg m]
          \<and> Rcode m = 0
          \<and> Answer m = [TXT \<lparr>Hdr_Name = ''abc.sleep.example.com'', Rrtype = 16, Class = 1,
                             Ttl = 0, Rdlength = 0\<rparr> [''failed to parse integer sleep time'']]
          \<and> written (sleepHandler example_writer
                       (query_for ''abc.sleep.example.com'' ClassINET)) = [m]
          \<and> slept_of (effects (sleepHandler example_writer
                       (query_for ''abc.sleep.example.com'' ClassINET))) = [])"
proof -
  have h: "snd (ParseInt (hd (Split (qname (query_for ''abc.sleep.example.com'' ClassINET))
             (CHR ''.''))) 10 16) = Some ErrSyntax"
    by (simp add: qname_query_for Split_def ParseInt_abc)
  then have "snd (ParseInt (hd (Split (qname (query_for ''abc.sleep.example.com'' ClassINET))
             (CHR ''.''))) 10 16) \<noteq> None"
    by simp
  from sleep_parse_failure [OF this, of example_writer] h
  show ?thesis
    by (simp add: qname_query_for example_writer_def RcodeSuccess_def TypeTXT_def ClassINET_def)
qed

text \<open>
  C4. For every query handed to \<open>sleepHandler\<close> whose first label is read by
  \<^verbatim>\<open>strconv.ParseInt(_, 10, 16)\<close> as the integer \<open>k\<close>, with \<open>0 \<le> k\<close>, the handler
  returns after the log line, one call of \<^verbatim>\<open>time.Sleep\<close> and then one written message. The
  duration passed to \<^verbatim>\<open>time.Sleep\<close> is \<open>k\<close> milliseconds (in nanoseconds, without overflow
  of the \<^verbatim>\<open>int64\<close> product), and \<^verbatim>\<open>time.Sleep\<close> pauses for at least the duration it is
  given. The message has the success status and empty answer, authority and additional
  sections.
\<close>

theorem sleep_then_reply:
  "ParseInt (hd (Split (qname q) (CHR ''.''))) 10 16 = (k, None) \<Longrightarrow> 0 \<le> k \<Longrightarrow>
   \<exists>m. sleepHandler w q
          = Returns [Log_Printf (RemoteAddr w) (qname q) ''sleepHandler'',
                     Sleep (k * Millisecond), WriteMsg m]
       \<and> Rcode m = RcodeSuccess \<and> Answer m = [] \<and> Ns m = [] \<and> Extra m = []"
proof -
  assume p: "ParseInt (hd (Split (qname q) (CHR ''.''))) 10 16 = (k, None)" and "0 \<le> k"
  from ParseInt_16_range [OF p] have r: "- 32768 \<le> k" "k \<le> 32767" by simp_all
  have "int64 k = k" using r by (simp add: int64_id)
  moreover have "int64 (k * Millisecond) = k * Millisecond"
    using r by (simp add: int64_id Millisecond_def)
  ultimately show ?thesis
    using p by (simp add: sleepHandler_cases logQuery_def SetRcode_sections)
qed

theorem sleep_then_reply_witness:
  "ParseInt (hd (Split (qname (query_for ''5.sleep.example.com'' ClassINET)) (CHR ''.''))) 10 16
     = (5, None)
   \<and> (0::int) \<le> 5
   \<and> (\<exists>m. sleepHandler example_writer (query_for ''5.sleep.example.com'' ClassINET)
            = Returns [Log_Printf ''192.0.2.7:40000'' ''5.sleep.example.com'' ''sleepHandler'',
                       Sleep 5000000, WriteMsg m]
          \<and> Rcode m = 0 \<and> Answer m = [] \<and> Ns m = [] \<and> Extra m = [])"
proof -
  have h: "ParseInt (hd (Split (qname (query_for ''5.sleep.example.com'' ClassINET))
             (CHR ''.''))) 10 16 = (5, None)"
    by (simp add: qname_query_for Split_def ParseInt_5)
  have k: "(0::int) \<le> 5" by simp
  from sleep_then_reply [OF h k, of example_writer] h
  show ?thesis
    by (simp add: qname_query_for example_writer_def RcodeSuccess_def Millisecond_def)
qed

section \<open>The default handler\<close>

text \<open>
  C9. For every query, and so for every query whose name matches no registered pattern,
  \<open>unknownHandler\<close> returns after the log line and one written message. That message has
  the success status and its answer section is exactly one TXT record, owned by the query
  name, whose one text is \<open>''request did not match any known pattern.''\<close>, which is not
  the empty string.
\<close>

theorem unknown_response:
  "\<exists>m. unknownHandler w q
          = Returns [Log_Printf (RemoteAddr w) (qname q) ''unknownHandler'', WriteMsg m]
       \<and> Rcode m = RcodeSuccess
       \<and> Answer m = [TXT \<lparr>Hdr_Name = qname q, Rrtype = TypeTXT, Class = ClassINET,
                          Ttl = 0, Rdlength = 0\<rparr> [''request did not match any known pattern.'']]
       \<and> ''request did not match any known pattern.'' \<noteq> ''''"
  by (simp add: unknownHandler_def txtError_def logQuery_def Let_def SetRcode_sections)

theorem unknown_response_witness:
  "\<exists>m. unknownHandler example_writer (query_for ''foo.bar'' ClassINET)
          = Returns [Log_Printf ''192.0.2.7:40000'' ''foo.bar'' ''unknownHandler'', WriteMsg m]
       \<and> Rcode m = 0
       \<and> Answer m = [TXT \<lparr>Hdr_Name = ''foo.bar'', Rrtype = 16, Class = 1,
                          Ttl = 0, Rdlength = 0\<rparr> [''request did not match any known pattern.'']]"
  using unknown_response [of example_writer "query_for ''foo.bar'' ClassINET"]
  by (simp add: qname_query_for example_writer_def RcodeSuccess_def TypeTXT_def ClassINET_def)

text \<open>
  C7. For every query with no question section, \<open>qname\<close> is the root name \<open>''.''\<close>; the
  router, as the specification describes it, selects the default handler for that name,
  whatever the base name is; and serving the query returns after the log line and one
  written message, which has the success status and one TXT record owned by \<open>''.''\<close> with
  the diagnostic text. Nothing panics.
\<close>

theorem no_question_default:
  "Question q = [] \<Longrightarrow>
   qname q = ''.''
   \<and> route fl (qname q) = H_unknownHandler
   \<and> (\<exists>m. ServeDNS ParseIP fl w q
            = Returns [Log_Printf (RemoteAddr w) ''.'' ''unknownHandler'', WriteMsg m]
          \<and> Rcode m = RcodeSuccess
          \<and> Answer m = [TXT \<lparr>Hdr_Name = ''.'', Rrtype = TypeTXT, Class = ClassINET,
                             Ttl = 0, Rdlength = 0\<rparr>
                          [''request did not match any known pattern.'']]
          \<and> Ns m = [] \<and> Extra m = [])"
proof -
  assume e: "Question q = []"
  then have n: "qname q = ''.''" by (simp add: qname_def)
  show ?thesis
    by (simp add: ServeDNS_def n route_root unknownHandler_def txtError_def logQuery_def
        Let_def SetRcode_sections)
qed

theorem no_question_default_witness:
  "Question (new_Msg\<lparr>Id := 7\<rparr>) = []
   \<and> qname (new_Msg\<lparr>Id := 7\<rparr>) = ''.''
   \<and> route example_flags (qname (new_Msg\<lparr>Id := 7\<rparr>)) = H_unknownHandler
   \<and> (\<exists>m. ServeDNS example_ParseIP example_flags example_writer (new_Msg\<lparr>Id := 7\<rparr>)
            = Returns [Log_Printf ''192.0.2.7:40000'' ''.'' ''unknownHandler'', WriteMsg m]
          \<and> Rcode m = 0
          \<and> Answer m = [TXT \<lparr>Hdr_Name = ''.'', Rrtype = 16, Class = 1,
                             Ttl = 0, Rdlength = 0\<rparr>
                          [''request did not match any known pattern.'']]
          \<and> Ns m = [] \<and> Extra m = [])"
proof -
  have h: "Question (new_Msg\<lparr>Id := 7\<rparr>) = []" by (simp add: new_Msg_def)
  from no_question_default [OF h, of example_flags example_ParseIP example_writer] h
  show ?thesis
    by (simp add: route_root example_writer_def RcodeSuccess_def TypeTXT_def ClassINET_def)
qed

section \<open>Invariants of the four handlers\<close>

text \<open>
  C5. For every query and each of the four handlers, every message the handler writes has
  the success status. (Where a handler panics before it writes, nothing is written.)
\<close>

theorem every_response_success:
  "\<forall>m \<in> set (written (cnamePitHandler w q) @ written (manyCutsHandler ParseIP fl w q)
               @ written (sleepHandler w q) @ written (unknownHandler w q)).
     Rcode m = RcodeSuccess"
  by (simp add: written_cnamePit written_manyCuts written_sleep written_unknown
      written_txtError SetRcode_sections)

theorem every_response_success_witness:
  "map Rcode (written (cnamePitHandler example_writer (query_for ''abc.sleep.example.com'' 3))
              @ written (manyCutsHandler example_ParseIP example_flags example_writer
                           (query_for ''abc.sleep.example.com'' 3))
              @ written (sleepHandler example_writer (query_for ''abc.sleep.example.com'' 3))
              @ written (unknownHandler example_writer (query_for ''abc.sleep.example.com'' 3)))
     = [RcodeSuccess, RcodeSuccess, RcodeSuccess, RcodeSuccess]"
  using every_response_success [of example_writer "query_for ''abc.sleep.example.com'' 3"
      example_ParseIP example_flags]
  by (simp add: written_cnamePit written_manyCuts written_sleep written_unknown
      written_txtError qname_query_for Question_query_for Split_def ParseInt_abc)

text \<open>
  C10. For every query, whatever class its question asks for, every resource record in the
  answer, authority and additional sections of every message written by any of the four
  handlers has the class IN.
\<close>

theorem every_record_class_INET:
  "\<forall>m \<in> set (written (cnamePitHandler w q) @ written (manyCutsHandler ParseIP fl w q)
               @ written (sleepHandler w q) @ written (unknownHandler w q)).
     \<forall>rr \<in> set (records m). Class (Hdr rr) = ClassINET"
  by (simp add: written_cnamePit written_manyCuts written_sleep written_unknown
      written_txtError records_def SetRcode_sections)

theorem every_record_class_INET_witness:
  "map Qclass (Question (query_for ''abc.sleep.example.com'' 3)) = [3]
   \<and> ClassINET = 1
   \<and> map (\<lambda>rr. Class (Hdr rr))
        (concat (map records
          (written (cnamePitHandler example_writer (query_for ''abc.sleep.example.com'' 3))
           @ written (manyCutsHandler example_ParseIP example_flags example_writer
                        (query_for ''abc.sleep.example.com'' 3))
           @ written (sleepHandler example_writer (query_for ''abc.sleep.example.com'' 3))
           @ written (unknownHandler example_writer (query_for ''abc.sleep.example.com'' 3)))))
     = [1, 1, 1, 1, 1]"
  using every_record_class_INET [of example_writer "query_for ''abc.sleep.example.com'' 3"
      example_ParseIP example_flags]
  by (simp add: written_cnamePit written_manyCuts written_sleep written_unknown
      written_txtError records_def SetRcode_sections qname_query_for Question_query_for
      Split_def ParseInt_abc ClassINET_def)

end
